theory Spec2Isabelle
  imports Complex_Main "HOL-Library.AList"
begin

text \<open>
  A shallow embedding of four modules of the stock-agent repository: the debate room
  agent (\<open>agents/debate_room.py\<close>), the tool wrappers of \<open>mcp_tools/base.py\<close> and the
  two baseline strategies \<open>buy_hold.py\<close> and \<open>moving_average.py\<close>. Every Python
  function is a total HOL function; an exception is a value of the result; what a
  module imports from outside the four files is a parameter. Log calls have no effect
  but the exceptions that formatting their arguments can raise, and those are kept.
\<close>

section \<open>Python values\<close>

text \<open>
  Exceptions are values. An exception carries its class and the text that \<open>str(e)\<close>
  gives. \<open>json.JSONDecodeError\<close> is a subclass of \<open>ValueError\<close>; the three classes of
  \<open>data_source_interface\<close> are taken as pairwise distinct subclasses of \<open>Exception\<close>.
  \<open>OtherError\<close> stands for any other subclass of \<open>Exception\<close>.
\<close>

datatype exc_class =
  KeyError | ValueError | JSONDecodeError | TypeError | AttributeError | IndexError
  | OverflowError | SyntaxError | NoDataFoundError | LoginError | DataSourceError
  | OtherError

datatype exn = Exn exc_class string

fun exn_class :: "exn \<Rightarrow> exc_class" where
  "exn_class (Exn c m) = c"

fun exn_str :: "exn \<Rightarrow> string" where
  "exn_str (Exn c m) = m"

definition is_subclass :: "exc_class \<Rightarrow> exc_class \<Rightarrow> bool" where
  "is_subclass c d = (c = d \<or> (c = JSONDecodeError \<and> d = ValueError))"

definition caught_by :: "exc_class list \<Rightarrow> exn \<Rightarrow> bool" where
  "caught_by cs e = list_ex (is_subclass (exn_class e)) cs"

text \<open>Sequencing: the first exception ends the computation.\<close>

definition then_do :: "exn + 'a \<Rightarrow> ('a \<Rightarrow> exn + 'b) \<Rightarrow> exn + 'b" where
  "then_do m f = (case m of Inl e \<Rightarrow> Inl e | Inr v \<Rightarrow> f v)"

definition check :: "exn option \<Rightarrow> exn + 'b \<Rightarrow> exn + 'b" where
  "check m k = (case m of Some e \<Rightarrow> Inl e | None \<Rightarrow> k)"

fun first_error :: "('a \<Rightarrow> exn option) \<Rightarrow> 'a list \<Rightarrow> exn option" where
  "first_error f [] = None"
| "first_error f (v # vs) = (case f v of Some e \<Rightarrow> Some e | None \<Rightarrow> first_error f vs)"

text \<open>
  A Python float is a finite value or one of the three special values. Finite values
  are real numbers: arithmetic on them is exact (rounding and overflow of finite
  results are not represented, and zero has no sign: a division by zero takes it as
  \<open>+0.0\<close>). The special values follow IEEE 754: every comparison with \<open>NaN\<close> is false.
\<close>

datatype pyfloat = Fin real | PInf | NInf | NaN

fun float_lt :: "pyfloat \<Rightarrow> pyfloat \<Rightarrow> bool" where
  "float_lt NaN b = False"
| "float_lt a NaN = False"
| "float_lt (Fin a) (Fin b) = (a < b)"
| "float_lt (Fin a) PInf = True"
| "float_lt (Fin a) NInf = False"
| "float_lt PInf b = False"
| "float_lt NInf NInf = False"
| "float_lt NInf b = True"

definition float_gt :: "pyfloat \<Rightarrow> pyfloat \<Rightarrow> bool" where
  "float_gt a b = float_lt b a"

fun float_le :: "pyfloat \<Rightarrow> pyfloat \<Rightarrow> bool" where
  "float_le NaN b = False"
| "float_le a NaN = False"
| "float_le (Fin a) (Fin b) = (a \<le> b)"
| "float_le (Fin a) PInf = True"
| "float_le (Fin a) NInf = False"
| "float_le PInf PInf = True"
| "float_le PInf b = False"
| "float_le NInf b = True"


fun float_add :: "pyfloat \<Rightarrow> pyfloat \<Rightarrow> pyfloat" where
  "float_add NaN b = NaN"
| "float_add a NaN = NaN"
| "float_add (Fin a) (Fin b) = Fin (a + b)"
| "float_add PInf NInf = NaN"
| "float_add NInf PInf = NaN"
| "float_add PInf b = PInf"
| "float_add NInf b = NInf"
| "float_add (Fin a) b = b"



definition signed_inf :: "bool \<Rightarrow> pyfloat" where
  "signed_inf positive = (if positive then PInf else NInf)"

fun float_mul :: "pyfloat \<Rightarrow> pyfloat \<Rightarrow> pyfloat" where
  "float_mul NaN b = NaN"
| "float_mul a NaN = NaN"
| "float_mul (Fin a) (Fin b) = Fin (a * b)"
| "float_mul (Fin a) PInf = (if a = 0 then NaN else signed_inf (0 < a))"
| "float_mul (Fin a) NInf = (if a = 0 then NaN else signed_inf (a < 0))"
| "float_mul PInf (Fin b) = (if b = 0 then NaN else signed_inf (0 < b))"
| "float_mul NInf (Fin b) = (if b = 0 then NaN else signed_inf (b < 0))"
| "float_mul PInf PInf = PInf"
| "float_mul PInf NInf = NInf"
| "float_mul NInf PInf = NInf"
| "float_mul NInf NInf = PInf"

text \<open>
  Division as numpy's float64 does it: total, a division by zero gives an infinity or
  \<open>NaN\<close>. Python's own \<open>/\<close> on floats agrees with it wherever the divisor is not zero.
\<close>

fun float_div :: "pyfloat \<Rightarrow> pyfloat \<Rightarrow> pyfloat" where
  "float_div NaN b = NaN"
| "float_div a NaN = NaN"
| "float_div (Fin a) (Fin b) =
     (if b \<noteq> 0 then Fin (a / b) else if a = 0 then NaN else signed_inf (0 < a))"
| "float_div (Fin a) b = Fin 0"
| "float_div PInf (Fin b) = signed_inf (0 \<le> b)"
| "float_div NInf (Fin b) = signed_inf (b < 0)"
| "float_div a b = NaN"

text \<open>\<open>int(x)\<close> on a float truncates toward zero and raises on the special values.\<close>

definition py_int :: "pyfloat \<Rightarrow> exn + int" where
  "py_int f =
     (case f of
        Fin a \<Rightarrow> Inr (if 0 \<le> a then \<lfloor>a\<rfloor> else \<lceil>a\<rceil>)
      | NaN \<Rightarrow> Inl (Exn ValueError ''cannot convert float NaN to integer'')
      | _ \<Rightarrow> Inl (Exn OverflowError ''cannot convert float infinity to integer''))"

text \<open>Builtin \<open>min\<close> and \<open>max\<close> of two floats: the second argument wins only when it
  compares strictly smaller (larger).\<close>

definition py_min :: "pyfloat \<Rightarrow> pyfloat \<Rightarrow> pyfloat" where
  "py_min a b = (if float_lt b a then b else a)"

definition py_max :: "pyfloat \<Rightarrow> pyfloat \<Rightarrow> pyfloat" where
  "py_max a b = (if float_gt b a then b else a)"

text \<open>
  The values that JSON text and the agents' dictionaries hold. \<open>PObj\<close> is an opaque
  object (a data frame, a feature matrix): it is no number, string, list or dict, and
  \<open>json.dumps\<close> cannot serialise it. A numpy.float64 is a \<open>float\<close>; other numeric types
  are not represented. A dict is an association list in insertion order.
\<close>

datatype pyval =
  PNone | PBool bool | PInt int | PFloat pyfloat | PStr string
  | PList "pyval list" | PDict "(string \<times> pyval) list" | PObj string

type_synonym pydict = "(string \<times> pyval) list"

definition dict_get :: "pydict \<Rightarrow> string \<Rightarrow> pyval \<Rightarrow> pyval" where
  "dict_get d k dflt = (case map_of d k of Some v \<Rightarrow> v | None \<Rightarrow> dflt)"

definition py_get :: "pyval \<Rightarrow> string \<Rightarrow> pyval \<Rightarrow> exn + pyval" where
  "py_get v k dflt =
     (case v of
        PDict d \<Rightarrow> Inr (dict_get d k dflt)
      | _ \<Rightarrow> Inl (Exn AttributeError ''object has no attribute get''))"

definition py_subscript :: "pyval \<Rightarrow> string \<Rightarrow> exn + pyval" where
  "py_subscript v k =
     (case v of
        PDict d \<Rightarrow>
          (case map_of d k of
             Some w \<Rightarrow> Inr w
           | None \<Rightarrow> Inl (Exn KeyError ([CHR 0x27] @ k @ [CHR 0x27])))
      | _ \<Rightarrow> Inl (Exn TypeError ''object is not subscriptable by a str''))"

fun py_truthy :: "pyval \<Rightarrow> bool" where
  "py_truthy PNone = False"
| "py_truthy (PBool b) = b"
| "py_truthy (PInt i) = (i \<noteq> 0)"
| "py_truthy (PFloat f) = (f \<noteq> Fin 0)"
| "py_truthy (PStr s) = (s \<noteq> [])"
| "py_truthy (PList xs) = (xs \<noteq> [])"
| "py_truthy (PDict d) = (d \<noteq> [])"
| "py_truthy (PObj s) = True"

text \<open>
  \<open>isinstance(v, (int, float))\<close> holds of ints, bools and floats; \<open>num_value\<close> gives the
  number such a value compares as (Python compares an int with a float exactly).
\<close>

fun num_value :: "pyval \<Rightarrow> pyfloat option" where
  "num_value (PInt i) = Some (Fin (of_int i))"
| "num_value (PBool b) = Some (Fin (if b then 1 else 0))"
| "num_value (PFloat f) = Some f"
| "num_value v = None"

text \<open>
  An int converts to a float only below the overflow bound; beyond it \<open>float(i)\<close>,
  \<open>i / 100.0\<close> and a format specification such as \<open>:.4f\<close> raise OverflowError.
\<close>

definition float_max_int :: int where
  "float_max_int = 2 ^ 1024 - 2 ^ 970"

definition int_fits_float :: "int \<Rightarrow> bool" where
  "int_fits_float i = (\<bar>i\<bar> < float_max_int)"

definition int_to_float :: "int \<Rightarrow> exn + pyfloat" where
  "int_to_float i =
     (if int_fits_float i then Inr (Fin (of_int i))
      else Inl (Exn OverflowError ''int too large to convert to float''))"

text \<open>The f-string field \<open>{v:.Nf}\<close>: \<open>None\<close> when it formats, the exception otherwise.\<close>

fun format_f :: "pyval \<Rightarrow> exn option" where
  "format_f (PInt i) =
     (if int_fits_float i then None
      else Some (Exn OverflowError ''int too large to convert to float''))"
| "format_f (PBool b) = None"
| "format_f (PFloat f) = None"
| "format_f (PStr s) = Some (Exn ValueError ''Unknown format code f for object of type str'')"
| "format_f v = Some (Exn TypeError ''unsupported format string passed to __format__'')"

fun json_serializable :: "pyval \<Rightarrow> bool" where
  "json_serializable (PObj s) = False"
| "json_serializable (PList xs) = list_all json_serializable xs"
| "json_serializable (PDict kvs) = list_all (\<lambda>kv. json_serializable (snd kv)) kvs"
| "json_serializable v = True"

text \<open>Strings: a \<open>char\<close> stands for a code point below 256.\<close>

definition startswith :: "string \<Rightarrow> string \<Rightarrow> bool" where
  "startswith s p = (take (length p) s = p)"

definition endswith :: "string \<Rightarrow> string \<Rightarrow> bool" where
  "endswith s p = (length p \<le> length s \<and> drop (length s - length p) s = p)"

text \<open>\<open>s.find(c)\<close> and \<open>s.rfind(c)\<close> for a character: the index, or \<open>-1\<close>. The slice
  \<open>s[a:b]\<close> is used with \<open>0 \<le> a < b \<le> len(s)\<close> only.\<close>

fun find_char :: "char \<Rightarrow> string \<Rightarrow> int" where
  "find_char c [] = - 1"
| "find_char c (d # s) =
     (if d = c then 0 else (let r = find_char c s in if r < 0 then - 1 else r + 1))"

definition rfind_char :: "char \<Rightarrow> string \<Rightarrow> int" where
  "rfind_char c s =
     (let r = find_char c (rev s) in if r < 0 then - 1 else int (length s) - 1 - r)"

definition slice :: "string \<Rightarrow> int \<Rightarrow> int \<Rightarrow> string" where
  "slice s a b = take (nat (b - a)) (drop (nat a) s)"

text \<open>\<open>str.lower\<close> on one character: an upper-case letter (A-Z, and the Latin-1
  letters 192-222 but 215) is 32 below its lower-case form, that is, bit 5 is set.\<close>

fun lower_char :: "char \<Rightarrow> char" where
  "lower_char (Char b0 b1 b2 b3 b4 b5 b6 b7) =
     (let n = (of_char (Char b0 b1 b2 b3 b4 b5 b6 b7) :: nat)
      in if (65 \<le> n \<and> n \<le> 90) \<or> (192 \<le> n \<and> n \<le> 222 \<and> n \<noteq> 215)
         then Char b0 b1 b2 b3 b4 True b6 b7
         else Char b0 b1 b2 b3 b4 b5 b6 b7)"

definition py_lower :: "string \<Rightarrow> string" where
  "py_lower s = map lower_char s"

section \<open>The externals of the debate room\<close>

text \<open>
  A message of the agent bus. \<open>None\<close> for the name or the content covers both a
  missing attribute and the value \<open>None\<close>. A content is a \<open>str\<close> or some other value.
\<close>

datatype msg_text = CStr string | CObj pyval

record message =
  msg_name :: "string option"
  msg_content :: "msg_text option"

text \<open>
  What the module imports and does not define is a parameter: each field is the outcome
  of the call, an exception or a value. \<open>str_to_float\<close> is the builtin \<open>float\<close> on a
  \<open>str\<close> (\<open>None\<close>: ValueError). \<open>get_chat_completion\<close> is the outcome of the one
  completion request of a run, made through \<open>log_llm_interaction\<close>; the prompt text
  is not represented.
\<close>

record ext =
  json_loads :: "string \<Rightarrow> exn + pyval"
  literal_eval :: "msg_text \<Rightarrow> exn + pyval"
  str_to_float :: "string \<Rightarrow> pyfloat option"
  show_workflow_status :: "string list \<Rightarrow> exn option"
  new_regime_detector :: "exn option"
  prices_to_df :: "pyval \<Rightarrow> exn + pyval"
  extract_regime_features :: "pyval \<Rightarrow> exn + pyval"
  fit_regime_model :: "pyval \<Rightarrow> exn + pyval"
  predict_current_regime :: "pyval \<Rightarrow> exn + pyval"
  adaptive_signal_aggregation :: "pydict \<Rightarrow> pyval \<Rightarrow> exn + pyval"
  get_chat_completion :: "exn + string option"
  show_agent_reasoning :: "pydict \<Rightarrow> string \<Rightarrow> exn option"

text \<open>\<open>json.loads(msg.content)\<close>: only a \<open>str\<close> is parsed.\<close>

definition loads_content :: "ext \<Rightarrow> msg_text option \<Rightarrow> exn + pyval" where
  "loads_content x c =
     (case c of
        Some (CStr s) \<Rightarrow> json_loads x s
      | _ \<Rightarrow> Inl (Exn TypeError ''the JSON object must be str, bytes or bytearray''))"

text \<open>The builtin \<open>float(v)\<close>.\<close>

definition py_float :: "ext \<Rightarrow> pyval \<Rightarrow> exn + pyfloat" where
  "py_float x v =
     (case v of
        PInt i \<Rightarrow> int_to_float i
      | PBool b \<Rightarrow> Inr (Fin (if b then 1 else 0))
      | PFloat f \<Rightarrow> Inr f
      | PStr s \<Rightarrow>
          (case str_to_float x s of
             Some f \<Rightarrow> Inr f
           | None \<Rightarrow> Inl (Exn ValueError ''could not convert string to float''))
      | _ \<Rightarrow> Inl (Exn TypeError ''float() argument must be a string or a real number''))"

section \<open>debate\_room.py\<close>

subsection \<open>\_convert\_numeric\_signal\_to\_string\<close>

text \<open>
  The threshold chain of lines 436-441, then the log line of line 445, whose
  \<open>:.4f\<close> field is the one place where the function can raise.
\<close>

definition convert_numeric_signal_to_string :: "pydict \<Rightarrow> exn + pydict" where
  "convert_numeric_signal_to_string analysis =
     (case map_of analysis ''signal'' of
        None \<Rightarrow> Inr analysis
      | Some original_signal \<Rightarrow>
          (case num_value original_signal of
             None \<Rightarrow> Inr analysis
           | Some numeric_signal \<Rightarrow>
               (let analysis' =
                      AList.update ''signal''
                        (PStr (if float_gt numeric_signal (Fin (1 / 10)) then ''bullish''
                               else if float_lt numeric_signal (Fin (- (1 / 10))) then ''bearish''
                               else ''neutral''))
                        analysis
                in case format_f original_signal of
                     Some e \<Rightarrow> Inl e
                   | None \<Rightarrow> Inr analysis')))"

subsection \<open>\_traditional\_debate\_logic\<close>

definition parse_confidence :: "ext \<Rightarrow> pyval \<Rightarrow> exn + pyfloat" where
  "parse_confidence x conf_value =
     (case conf_value of
        PStr s \<Rightarrow>
          (if endswith s ''%'' then
             (case str_to_float x (butlast s) of
                Some f \<Rightarrow> Inr (float_div f (Fin 100))
              | None \<Rightarrow> Inr (Fin (1 / 2)))
           else
             (case str_to_float x s of
                Some f \<Rightarrow> Inr f
              | None \<Rightarrow> Inr (Fin (1 / 2))))
      | PBool b \<Rightarrow> Inr (Fin (if b then 1 else 0))
      | PInt i \<Rightarrow>
          (case int_to_float i of
             Inl e \<Rightarrow> Inl e
           | Inr f \<Rightarrow> Inr (if 1 < i then float_div f (Fin 100) else f))
      | PFloat f \<Rightarrow> Inr (if float_gt f (Fin 1) then float_div f (Fin 100) else f)
      | _ \<Rightarrow> Inr (Fin (1 / 2)))"

text \<open>\<open>perspective_values.get(perspective, 0.0)\<close>: a list or a dict is unhashable.\<close>

definition perspective_values_get :: "pyval \<Rightarrow> exn + pyfloat" where
  "perspective_values_get perspective =
     (case perspective of
        PStr s \<Rightarrow>
          Inr (if s = ''bullish'' then Fin 1
               else if s = ''neutral'' then Fin 0
               else if s = ''bearish'' then Fin (- 1)
               else Fin 0)
      | PList xs \<Rightarrow> Inl (Exn TypeError ''unhashable type: list'')
      | PDict d \<Rightarrow> Inl (Exn TypeError ''unhashable type: dict'')
      | _ \<Rightarrow> Inr (Fin 0))"

text \<open>The body of the \<open>try\<close> of one loop round: the pair (numeric\_signal * confidence,
  confidence) that the round adds to the totals.\<close>

definition researcher_signal :: "ext \<Rightarrow> message \<Rightarrow> exn + (pyfloat \<times> pyfloat)" where
  "researcher_signal x msg =
     (case loads_content x (msg_content msg) of
        Inl e \<Rightarrow> Inl e
      | Inr data \<Rightarrow>
     (case py_get data ''perspective'' (PStr ''neutral'') of
        Inl e \<Rightarrow> Inl e
      | Inr perspective \<Rightarrow>
     (case py_get data ''confidence'' (PFloat (Fin (1 / 2))) of
        Inl e \<Rightarrow> Inl e
      | Inr raw_confidence \<Rightarrow>
     (case parse_confidence x raw_confidence of
        Inl e \<Rightarrow> Inl e
      | Inr confidence \<Rightarrow>
     (case perspective_values_get perspective of
        Inl e \<Rightarrow> Inl e
      | Inr numeric_signal \<Rightarrow> Inr (float_mul numeric_signal confidence, confidence))))))"

fun researcher_totals ::
  "ext \<Rightarrow> (string \<times> message) list \<Rightarrow> pyfloat \<times> pyfloat \<times> nat \<Rightarrow> pyfloat \<times> pyfloat \<times> nat" where
  "researcher_totals x [] acc = acc"
| "researcher_totals x ((nm, msg) # rest) (total_signal, total_confidence, cnt) =
     (case researcher_signal x msg of
        Inl e \<Rightarrow> researcher_totals x rest (total_signal, total_confidence, cnt)
      | Inr (contribution, confidence) \<Rightarrow>
          researcher_totals x rest
            (float_add total_signal contribution, float_add total_confidence confidence, Suc cnt))"

definition avg_signal :: "ext \<Rightarrow> (string \<times> message) list \<Rightarrow> pyfloat" where
  "avg_signal x researcher_messages =
     (case researcher_totals x researcher_messages (Fin 0, Fin 0, 0) of
        (total_signal, total_confidence, cnt) \<Rightarrow>
          if 0 < cnt then
            (if float_gt total_confidence (Fin 0) then float_div total_signal total_confidence
             else Fin 0)
          else Fin 0)"

definition avg_confidence :: "ext \<Rightarrow> (string \<times> message) list \<Rightarrow> pyfloat" where
  "avg_confidence x researcher_messages =
     (case researcher_totals x researcher_messages (Fin 0, Fin 0, 0) of
        (total_signal, total_confidence, cnt) \<Rightarrow>
          if 0 < cnt then float_div total_confidence (Fin (real cnt)) else Fin (3 / 10))"

definition traditional_debate_logic :: "ext \<Rightarrow> (string \<times> message) list \<Rightarrow> pydict" where
  "traditional_debate_logic x researcher_messages =
     (if length researcher_messages < 2 then
        [(''signal'', PStr ''neutral''), (''confidence'', PFloat (Fin (3 / 10))),
         (''aggregation_method'', PStr ''insufficient_data'')]
      else
        (let a = avg_signal x researcher_messages;
             signal_str = (if float_gt a (Fin (1 / 10)) then ''bullish''
                           else if float_lt a (Fin (- (1 / 10))) then ''bearish''
                           else ''neutral'')
         in [(''signal'', PStr signal_str),
             (''confidence'', PFloat (avg_confidence x researcher_messages)),
             (''aggregation_method'', PStr ''traditional_average'')]))"

subsection \<open>The string-to-numeric step of the fusion\<close>

text \<open>Lines 174-180: \<open>signal_mapping.get(current_signal.lower(), 0.0)\<close> for a \<open>str\<close>,
  \<open>float(current_signal)\<close> otherwise.\<close>

definition signal_mapping_get :: "string \<Rightarrow> pyfloat" where
  "signal_mapping_get s =
     (if s = ''bullish'' then Fin 1
      else if s = ''neutral'' then Fin 0
      else if s = ''bearish'' then Fin (- 1)
      else Fin 0)"

definition numeric_of_signal :: "ext \<Rightarrow> pyval \<Rightarrow> exn + pyfloat" where
  "numeric_of_signal x current_signal =
     (case current_signal of
        PStr s \<Rightarrow> Inr (signal_mapping_get (py_lower s))
      | _ \<Rightarrow> py_float x current_signal)"


subsection \<open>\_get\_llm\_enhanced\_analysis\<close>

definition parse_confidence_for_display :: "ext \<Rightarrow> pyval \<Rightarrow> exn + pyfloat" where
  "parse_confidence_for_display x conf_value =
     (case conf_value of
        PStr s \<Rightarrow>
          (if endswith s ''%'' then
             (case str_to_float x (butlast s) of
                Some f \<Rightarrow> Inr (float_div f (Fin 100))
              | None \<Rightarrow> Inr (Fin (1 / 2)))
           else
             (case str_to_float x s of
                Some f \<Rightarrow> Inr f
              | None \<Rightarrow> Inr (Fin (1 / 2))))
      | PBool b \<Rightarrow> Inr (Fin (if b then 1 else 0))
      | PInt i \<Rightarrow>
          (case int_to_float i of
             Inl e \<Rightarrow> Inl e
           | Inr f \<Rightarrow> Inr (if 1 < i then float_div f (Fin 100) else f))
      | PFloat f \<Rightarrow> Inr (if float_gt f (Fin 1) then float_div f (Fin 100) else f)
      | _ \<Rightarrow> Inr (Fin (1 / 2)))"

text \<open>
  Lines 344-394 build the prompt. The prompt is text for the completion request; what
  is kept of it are the exceptions that building it can raise, in the order of the
  source. They are raised before the \<open>try\<close> and leave the function.
\<close>

fun iterable :: "pyval \<Rightarrow> bool" where
  "iterable (PStr s) = True"
| "iterable (PList xs) = True"
| "iterable (PDict d) = True"
| "iterable v = False"

definition prompt_researcher :: "ext \<Rightarrow> string \<times> pyval \<Rightarrow> exn option" where
  "prompt_researcher x entry =
     (case py_get (snd entry) ''confidence'' (PInt 0) of
        Inl e \<Rightarrow> Some e
      | Inr c \<Rightarrow>
     (case parse_confidence_for_display x c of
        Inl e \<Rightarrow> Some e
      | Inr researcher_confidence \<Rightarrow>
     (case py_get (snd entry) ''thesis_points'' (PList []) of
        Inl e \<Rightarrow> Some e
      | Inr points \<Rightarrow>
          if iterable points then None else Some (Exn TypeError ''object is not iterable''))))"

definition prompt_signal :: "ext \<Rightarrow> string \<times> pyval \<Rightarrow> exn option" where
  "prompt_signal x entry =
     (case py_get (snd entry) ''signal'' (PStr ''neutral'') of
        Inl e \<Rightarrow> Some e
      | Inr signal_value \<Rightarrow>
     (case py_get (snd entry) ''confidence'' (PInt 0) of
        Inl e \<Rightarrow> Some e
      | Inr confidence_value \<Rightarrow>
     (case (case signal_value of PStr s \<Rightarrow> None | _ \<Rightarrow> format_f signal_value) of
        Some e \<Rightarrow> Some e
      | None \<Rightarrow>
     (case parse_confidence_for_display x confidence_value of
        Inl e \<Rightarrow> Some e
      | Inr parsed_confidence \<Rightarrow> None))))"

definition build_prompt :: "ext \<Rightarrow> pydict \<Rightarrow> pydict \<Rightarrow> pyval \<Rightarrow> exn option" where
  "build_prompt x researcher_data agent_signals current_regime =
     (case py_get current_regime ''confidence'' (PInt 0) of
        Inl e \<Rightarrow> Some e
      | Inr c \<Rightarrow>
     (case parse_confidence_for_display x c of
        Inl e \<Rightarrow> Some e
      | Inr regime_confidence \<Rightarrow>
     (case first_error (prompt_researcher x) researcher_data of
        Some e \<Rightarrow> Some e
      | None \<Rightarrow> first_error (prompt_signal x) agent_signals)))"

text \<open>Lines 396-426: the \<open>try\<close> around the request and the parse of the response, and
  the default that every failure inside it falls through to.\<close>

definition llm_failed :: pydict where
  "llm_failed = [(''llm_score'', PInt 0), (''error'', PStr ''LLM analysis failed'')]"

definition parse_llm_response :: "ext \<Rightarrow> pydict" where
  "parse_llm_response x =
     (case get_chat_completion x of
        Inl e \<Rightarrow> llm_failed
      | Inr None \<Rightarrow> llm_failed
      | Inr (Some llm_response) \<Rightarrow>
          if llm_response = [] then llm_failed
          else
            (let json_start = find_char (CHR ''{'') llm_response;
                 json_end = rfind_char (CHR ''}'') llm_response + 1
             in if 0 \<le> json_start \<and> json_start < json_end then
                  (case json_loads x (slice llm_response json_start json_end) of
                     Inl e \<Rightarrow> llm_failed
                   | Inr llm_analysis \<Rightarrow>
                  (case py_get llm_analysis ''score'' (PInt 0) of
                     Inl e \<Rightarrow> llm_failed
                   | Inr score \<Rightarrow>
                  (case py_float x score of
                     Inl e \<Rightarrow> llm_failed
                   | Inr llm_score \<Rightarrow>
                       [(''llm_score'', PFloat (py_max (py_min llm_score (Fin 1)) (Fin (- 1)))),
                        (''llm_analysis'', llm_analysis),
                        (''llm_response'', PStr llm_response)])))
                else llm_failed))"

definition get_llm_enhanced_analysis :: "ext \<Rightarrow> pydict \<Rightarrow> pydict \<Rightarrow> pyval \<Rightarrow> exn + pydict" where
  "get_llm_enhanced_analysis x researcher_data agent_signals current_regime =
     check (build_prompt x researcher_data agent_signals current_regime)
       (Inr (parse_llm_response x))"

subsection \<open>debate\_room\_agent\<close>

text \<open>
  The state is the \<open>AgentState\<close> typed dict: it has the three keys. The message that
  the agent returns is kept with the dict that \<open>json.dumps\<close> writes into its content.
  The \<open>agent_endpoint\<close> decorator is outside the function and is not represented.
\<close>

record agent_state =
  st_messages :: "message option list"
  st_data :: pydict
  st_metadata :: pydict

record human_message =
  hm_name :: string
  hm_json :: pydict

record agent_result =
  out_messages :: "human_message list"
  out_data :: pydict
  out_metadata :: pydict

text \<open>Lines 24-41: the regime of the price series, up to the log line with its
  \<open>:.2f\<close> field.\<close>

definition detect_regime :: "ext \<Rightarrow> agent_state \<Rightarrow> exn + (pyval \<times> pyval \<times> pyval)" where
  "detect_regime x state =
     check (show_workflow_status x [''Debate Room''])
    (then_do (py_subscript (PDict (st_metadata state)) ''show_reasoning'') (\<lambda>show_reasoning.
     check (new_regime_detector x)
    (then_do (py_subscript (PDict (st_data state)) ''prices'') (\<lambda>prices.
     then_do (prices_to_df x prices) (\<lambda>prices_df.
     then_do (extract_regime_features x prices_df) (\<lambda>regime_features.
     then_do (fit_regime_model x regime_features) (\<lambda>regime_model_results.
     then_do (predict_current_regime x regime_features) (\<lambda>current_regime.
     then_do (py_get current_regime ''regime_name'' (PStr ''unknown'')) (\<lambda>regime_name.
     then_do (py_get current_regime ''confidence'' (PInt 0)) (\<lambda>c.
     check (format_f c)
       (Inr (show_reasoning, current_regime, regime_model_results))))))))))))"

text \<open>Lines 47-90: one round of the loop over the messages per list element. The
  inner \<open>try\<close> catches the three classes of line 88; any other exception leaves the
  loop.\<close>

definition agent_type_mapping :: "string \<Rightarrow> string option" where
  "agent_type_mapping =
     map_of [(''technical_analyst_agent'', ''technical''),
             (''fundamentals_agent'', ''fundamental''),
             (''sentiment_agent'', ''sentiment''),
             (''valuation_agent'', ''valuation''),
             (''ai_model_analyst_agent'', ''ai_model''),
             (''macro_analyst_agent'', ''macro'')]"

definition collect_message ::
  "ext \<Rightarrow> string \<Rightarrow> message \<Rightarrow> msg_text \<Rightarrow> pydict \<times> (string \<times> message) list
     \<Rightarrow> exn + (pydict \<times> (string \<times> message) list)" where
  "collect_message x nm msg c acc =
     then_do (case c of CStr s \<Rightarrow> json_loads x s | CObj v \<Rightarrow> Inr v) (\<lambda>content.
     then_do
       (case agent_type_mapping nm of
          Some signal_type \<Rightarrow>
            then_do (py_get content ''signal'' (PStr ''neutral'')) (\<lambda>raw_signal.
            then_do (py_get content ''confidence'' (PFloat (Fin (1 / 2)))) (\<lambda>confidence.
              Inr (AList.update signal_type
                     (PDict [(''signal'', raw_signal), (''confidence'', confidence),
                             (''raw_data'', content)])
                     (fst acc))))
        | None \<Rightarrow> Inr (fst acc)) (\<lambda>agent_signals.
       Inr (agent_signals,
            if startswith nm ''researcher_'' then AList.update nm msg (snd acc) else snd acc)))"

fun collect_signals ::
  "ext \<Rightarrow> message option list \<Rightarrow> pydict \<times> (string \<times> message) list
     \<Rightarrow> exn + (pydict \<times> (string \<times> message) list)" where
  "collect_signals x [] acc = Inr acc"
| "collect_signals x (m # rest) acc =
     (case m of
        None \<Rightarrow> collect_signals x rest acc
      | Some msg \<Rightarrow>
     (case msg_name msg of
        None \<Rightarrow> collect_signals x rest acc
      | Some nm \<Rightarrow>
          if \<not> endswith nm ''_agent'' then collect_signals x rest acc
          else
     (case msg_content msg of
        None \<Rightarrow> collect_signals x rest acc
      | Some c \<Rightarrow>
     (case collect_message x nm msg c acc of
        Inr acc' \<Rightarrow> collect_signals x rest acc'
      | Inl e \<Rightarrow>
          if caught_by [JSONDecodeError, TypeError, AttributeError] e
          then collect_signals x rest acc
          else Inl e))))"

text \<open>Lines 94-128: the adaptive aggregation, its log lines and the report.\<close>

definition items :: "pyval \<Rightarrow> exn + pydict" where
  "items v =
     (case v of
        PDict d \<Rightarrow> Inr d
      | _ \<Rightarrow> Inl (Exn AttributeError ''object has no attribute items''))"

definition log_contribution :: "string \<times> pyval \<Rightarrow> exn option" where
  "log_contribution entry =
     (case
        then_do (py_subscript (snd entry) ''signal'') (\<lambda>sg.
        then_do (py_subscript (snd entry) ''confidence'') (\<lambda>c.
        check (format_f c)
       (then_do (py_subscript (snd entry) ''weight'') (\<lambda>w.
        check (format_f w)
       (then_do (py_subscript (snd entry) ''contribution'') (\<lambda>v.
        check (format_f v) (Inr ())))))))
      of Inl e \<Rightarrow> Some e | Inr u \<Rightarrow> None)"

definition adaptive_analysis :: "ext \<Rightarrow> pydict \<Rightarrow> pyval \<Rightarrow> pyval \<Rightarrow> exn + pydict" where
  "adaptive_analysis x agent_signals current_regime regime_model_results =
     then_do (adaptive_signal_aggregation x agent_signals current_regime) (\<lambda>aggregated_result.
     then_do (py_subscript aggregated_result ''aggregated_signal'') (\<lambda>final_signal.
     then_do (py_subscript aggregated_result ''aggregated_confidence'') (\<lambda>final_confidence.
     check (format_f final_signal)
    (check (format_f final_confidence)
    (then_do (py_get aggregated_result ''original_signal'' (PStr ''N/A'')) (\<lambda>original_signal.
     check (format_f original_signal)
    (then_do (py_get aggregated_result ''signal_contributions'' (PDict [])) (\<lambda>logged.
     then_do (items logged) (\<lambda>contributions.
     check (first_error log_contribution contributions)
    (then_do (py_subscript aggregated_result ''regime_adjusted_weights'') (\<lambda>weights.
     then_do (py_subscript aggregated_result ''signal_contributions'') (\<lambda>signal_contributions.
     then_do (py_subscript aggregated_result ''dynamic_threshold'') (\<lambda>dynamic_threshold.
     then_do (py_get regime_model_results ''model_score'' (PInt 0)) (\<lambda>model_score.
     then_do (py_get regime_model_results ''regime_characteristics'' (PDict [])) (\<lambda>characteristics.
       Inr [(''signal'', final_signal),
            (''confidence'', final_confidence),
            (''aggregation_method'', PStr ''regime_aware_adaptive''),
            (''market_regime'', current_regime),
            (''regime_adjusted_weights'', weights),
            (''signal_contributions'', signal_contributions),
            (''dynamic_threshold'', dynamic_threshold),
            (''regime_model_performance'',
               PDict [(''model_score'', model_score),
                      (''regime_characteristics'', characteristics)])])))))))))))))))"

text \<open>Lines 93-133: the adaptive aggregation when signals were collected and the
  regime is known, the traditional logic otherwise.\<close>

definition aggregate ::
  "ext \<Rightarrow> pydict \<Rightarrow> pyval \<Rightarrow> pyval \<Rightarrow> (string \<times> message) list \<Rightarrow> exn + pydict" where
  "aggregate x agent_signals current_regime regime_model_results researcher_messages =
     then_do
       (if agent_signals = [] then Inr False
        else then_do (py_get current_regime ''regime_name'' PNone)
               (\<lambda>regime_name. Inr (regime_name \<noteq> PStr ''unknown''))) (\<lambda>adaptive.
       if adaptive then adaptive_analysis x agent_signals current_regime regime_model_results
       else Inr (traditional_debate_logic x researcher_messages))"

text \<open>Lines 143-158: the researchers' contents, parsed by \<open>json.loads\<close> and, when that
  raises JSONDecodeError or TypeError, by \<open>ast.literal_eval\<close>.\<close>

fun parse_researchers :: "ext \<Rightarrow> (string \<times> message) list \<Rightarrow> pydict \<Rightarrow> exn + pydict" where
  "parse_researchers x [] researcher_data = Inr researcher_data"
| "parse_researchers x ((nm, msg) # rest) researcher_data =
     (case msg_content msg of
        None \<Rightarrow> parse_researchers x rest researcher_data
      | Some c \<Rightarrow>
     (case loads_content x (Some c) of
        Inr data_content \<Rightarrow>
          parse_researchers x rest (AList.update nm data_content researcher_data)
      | Inl e \<Rightarrow>
          if \<not> caught_by [JSONDecodeError, TypeError] e then Inl e
          else
     (case literal_eval x c of
        Inr data_content \<Rightarrow>
          parse_researchers x rest (AList.update nm data_content researcher_data)
      | Inl e' \<Rightarrow>
          if caught_by [ValueError, SyntaxError, TypeError] e'
          then parse_researchers x rest researcher_data
          else Inl e')))"

text \<open>Lines 167-194: the weighted fusion of the aggregated signal with the LLM score.\<close>

definition py_gt_float :: "pyval \<Rightarrow> pyfloat \<Rightarrow> exn + bool" where
  "py_gt_float v b =
     (case num_value v of
        Some a \<Rightarrow> Inr (float_gt a b)
      | None \<Rightarrow> Inl (Exn TypeError ''> not supported between these instances''))"

definition fuse_llm :: "ext \<Rightarrow> pydict \<Rightarrow> pydict \<Rightarrow> pyval \<Rightarrow> exn + pydict" where
  "fuse_llm x enhanced_analysis llm_enhanced_analysis current_regime =
     (if map_of enhanced_analysis ''signal'' \<noteq> None
         \<and> map_of llm_enhanced_analysis ''llm_score'' \<noteq> None then
        then_do (py_get current_regime ''confidence'' (PFloat (Fin (1 / 2)))) (\<lambda>regime_confidence.
        then_do (py_gt_float regime_confidence (Fin (6 / 10))) (\<lambda>confident.
        then_do (py_subscript (PDict enhanced_analysis) ''signal'') (\<lambda>current_signal.
        then_do (numeric_of_signal x current_signal) (\<lambda>numeric_signal.
        then_do (py_subscript (PDict llm_enhanced_analysis) ''llm_score'') (\<lambda>score.
        then_do (case num_value score of
                   Some f \<Rightarrow> Inr f
                 | None \<Rightarrow> Inl (Exn TypeError ''unsupported operand type for *'')) (\<lambda>llm_score.
          (let adaptive_weight = (if confident then 7 / 10 else 1 / 2);
               llm_weight = 1 - adaptive_weight;
               fused_signal = float_add (float_mul (Fin adaptive_weight) numeric_signal)
                                        (float_mul (Fin llm_weight) llm_score)
           in Inr (AList.update ''original_signal'' current_signal
                  (AList.update ''fusion_weights''
                     (PDict [(''adaptive_aggregation'', PFloat (Fin adaptive_weight)),
                             (''llm_analysis'', PFloat (Fin llm_weight))])
                  (AList.update ''llm_analysis'' (PDict llm_enhanced_analysis)
                  (AList.update ''signal'' (PFloat fused_signal) enhanced_analysis)))))))))))
      else Inr enhanced_analysis)"

text \<open>Lines 24-203: everything up to the message. The result is the value of
  \<open>show_reasoning\<close> and the analysis that the message carries.\<close>

definition analyse :: "ext \<Rightarrow> agent_state \<Rightarrow> exn + (pyval \<times> pydict)" where
  "analyse x state =
     then_do (detect_regime x state) (\<lambda>(show_reasoning, current_regime, regime_model_results).
     then_do (collect_signals x (st_messages state) ([], [])) (\<lambda>(agent_signals, researcher_messages).
     then_do (aggregate x agent_signals current_regime regime_model_results researcher_messages)
       (\<lambda>aggregated.
       if (map_of researcher_messages ''researcher_bull_agent'' = None
           \<or> map_of researcher_messages ''researcher_bear_agent'' = None)
          \<and> agent_signals = []
       then Inl (Exn ValueError
                  ''Missing required researcher_bull_agent or researcher_bear_agent messages'')
       else
     then_do (parse_researchers x researcher_messages []) (\<lambda>researcher_data.
     then_do
       (if 2 \<le> length researcher_data then
          then_do (get_llm_enhanced_analysis x researcher_data agent_signals current_regime)
            (\<lambda>llm_enhanced_analysis.
               fuse_llm x aggregated llm_enhanced_analysis current_regime)
        else Inr aggregated) (\<lambda>fused.
     then_do (convert_numeric_signal_to_string fused) (\<lambda>enhanced_analysis.
       if json_serializable (PDict enhanced_analysis)
       then Inr (show_reasoning, enhanced_analysis)
       else Inl (Exn TypeError ''Object is not JSON serializable'')))))))"

text \<open>Lines 23-214, the body of the \<open>try\<close>: the outcome, and the metadata dict as the
  body leaves it (line 207 writes into it in place).\<close>

definition debate_room_body :: "ext \<Rightarrow> agent_state \<Rightarrow> (exn + human_message) \<times> pydict" where
  "debate_room_body x state =
     (case analyse x state of
        Inl e \<Rightarrow> (Inl e, st_metadata state)
      | Inr (show_reasoning, enhanced_analysis) \<Rightarrow>
          (let message = \<lparr>hm_name = ''debate_room_agent'', hm_json = enhanced_analysis\<rparr>
           in if py_truthy show_reasoning then
                (case show_agent_reasoning x enhanced_analysis ''Enhanced Debate Room'' of
                   Some e \<Rightarrow> (Inl e, st_metadata state)
                 | None \<Rightarrow>
                     (let metadata = AList.update ''agent_reasoning'' (PDict enhanced_analysis)
                                       (st_metadata state)
                      in case show_workflow_status x [''Debate Room'', ''completed''] of
                           Some e \<Rightarrow> (Inl e, metadata)
                         | None \<Rightarrow> (Inr message, metadata)))
              else
                (case show_workflow_status x [''Debate Room'', ''completed''] of
                   Some e \<Rightarrow> (Inl e, st_metadata state)
                 | None \<Rightarrow> (Inr message, st_metadata state))))"

text \<open>Lines 216-235: the handler, and the function as a whole.\<close>

definition default_analysis :: "exn \<Rightarrow> pydict" where
  "default_analysis e =
     [(''signal'', PStr ''neutral''), (''confidence'', PFloat (Fin (3 / 10))),
      (''error'', PStr (exn_str e)), (''aggregation_method'', PStr ''error_fallback'')]"

definition debate_room_agent :: "ext \<Rightarrow> agent_state \<Rightarrow> agent_result" where
  "debate_room_agent x state =
     (case debate_room_body x state of
        (Inr message, metadata) \<Rightarrow>
          \<lparr>out_messages = [message], out_data = st_data state, out_metadata = metadata\<rparr>
      | (Inl e, metadata) \<Rightarrow>
          \<lparr>out_messages = [\<lparr>hm_name = ''debate_room_agent'', hm_json = default_analysis e\<rparr>],
           out_data = st_data state, out_metadata = metadata\<rparr>)"


section \<open>mcp\_tools/base.py\<close>

text \<open>A table of the data source: the column names and the rows of cell texts.\<close>

record dataframe =
  df_columns :: "string list"
  df_rows :: "string list list"

text \<open>Modelled from the spec: the cut that \<open>format_df_to_markdown\<close> makes. The spec
  has the tables "capped at fixed row/column counts": the first \<open>max_rows\<close> rows and
  the first \<open>max_cols\<close> columns are kept.\<close>

definition cap_df :: "nat \<Rightarrow> nat \<Rightarrow> dataframe \<Rightarrow> dataframe" where
  "cap_df max_rows max_cols df =
     \<lparr>df_columns = take max_cols (df_columns df),
      df_rows = map (take max_cols) (take max_rows (df_rows df))\<rparr>"

text \<open>A markdown table: one line for the header, one for the rule, one per row.\<close>

fun join :: "string \<Rightarrow> string list \<Rightarrow> string" where
  "join sep [] = []"
| "join sep [s] = s"
| "join sep (s # t # rest) = s @ sep @ join sep (t # rest)"

definition md_line :: "string list \<Rightarrow> string" where
  "md_line cells = ''| '' @ join '' | '' cells @ '' |''"

definition md_lines :: "dataframe \<Rightarrow> string list" where
  "md_lines df =
     md_line (df_columns df) # md_line (map (\<lambda>c. ''---'') (df_columns df))
       # map md_line (df_rows df)"

text \<open>Modelled from the spec: \<open>format_df_to_markdown\<close> of
  \<open>mcp_api/formatting/markdown_formatter.py\<close>, which is not among the sources. The spec
  has the tables "converted to markdown tables capped at fixed row/column counts": the
  table is cut to \<open>max_rows\<close> rows and \<open>max_cols\<close> columns and written as a markdown
  table.\<close>

definition format_df_to_markdown :: "dataframe \<Rightarrow> nat \<Rightarrow> nat \<Rightarrow> string" where
  "format_df_to_markdown df max_rows max_cols =
     join [CHR 0x0A] (md_lines (cap_df max_rows max_cols df))"

text \<open>Modelled from the spec: the default values of \<open>max_rows\<close> and \<open>max_cols\<close> in the
  signature of \<open>format_df_to_markdown\<close>, which the macro and the index tool rely on,
  are fixed counts that the sources do not show; they are parameters.\<close>

record formatter_defaults =
  default_max_rows :: nat
  default_max_cols :: nat

text \<open>\<open>str.isdigit\<close>: the decimal digits and, below 256, the superscripts 178, 179 and
  185. \<open>str(i)\<close> for an int.\<close>

definition is_digit_char :: "char \<Rightarrow> bool" where
  "is_digit_char c =
     (let n = (of_char c :: nat) in (48 \<le> n \<and> n \<le> 57) \<or> n = 178 \<or> n = 179 \<or> n = 185)"

definition isdigit :: "string \<Rightarrow> bool" where
  "isdigit s = (s \<noteq> [] \<and> list_all is_digit_char s)"

function str_nat :: "nat \<Rightarrow> string" where
  "str_nat n =
     (if n < 10 then [''0123456789'' ! n]
      else str_nat (n div 10) @ [''0123456789'' ! (n mod 10)])"
  by pat_completeness auto
termination
  by (relation "measure id") auto

definition str_int :: "int \<Rightarrow> string" where
  "str_int i = (if i < 0 then CHR ''-'' # str_nat (nat (- i)) else str_nat (nat i))"

definition quoted :: "string \<Rightarrow> string" where
  "quoted s = [CHR 0x27] @ s @ [CHR 0x27]"

text \<open>The five handlers, in the order of the source; the three functions have the same
  five.\<close>

definition handle_error :: "exn \<Rightarrow> string" where
  "handle_error e =
     (if caught_by [NoDataFoundError] e then ''Error: '' @ exn_str e
      else if caught_by [LoginError] e then
        ''Error: Could not connect to data source. '' @ exn_str e
      else if caught_by [DataSourceError] e then
        ''Error: An error occurred while fetching data. '' @ exn_str e
      else if caught_by [ValueError] e then ''Error: Invalid input parameter. '' @ exn_str e
      else ''Error: An unexpected error occurred: '' @ exn_str e)"

text \<open>The result is the returned string and the list of the calls made to the data
  source method, with their arguments.\<close>

definition call_financial_data_tool ::
  "string \<Rightarrow> (string \<Rightarrow> string \<Rightarrow> int \<Rightarrow> exn + dataframe) \<Rightarrow> string \<Rightarrow> string \<Rightarrow> string \<Rightarrow> int
     \<Rightarrow> string \<times> (string \<times> string \<times> int) list" where
  "call_financial_data_tool tool_name data_source_method data_type_name code year quarter =
     (if \<not> isdigit year \<or> length year \<noteq> 4 then
        (''Error: Invalid year '' @ quoted year @ ''. Please provide a 4-digit year.'', [])
      else if \<not> (1 \<le> quarter \<and> quarter \<le> 4) then
        (''Error: Invalid quarter '' @ quoted (str_int quarter)
           @ ''. Must be between 1 and 4.'', [])
      else
        (case data_source_method code year quarter of
           Inr df \<Rightarrow> (format_df_to_markdown df 20 10, [(code, year, quarter)])
         | Inl e \<Rightarrow> (handle_error e, [(code, year, quarter)])))"

definition call_macro_data_tool ::
  "formatter_defaults \<Rightarrow> string
     \<Rightarrow> (string option \<Rightarrow> string option \<Rightarrow> pydict \<Rightarrow> exn + dataframe)
     \<Rightarrow> string \<Rightarrow> string option \<Rightarrow> string option \<Rightarrow> pydict \<Rightarrow> string" where
  "call_macro_data_tool dflt tool_name data_source_method data_type_name start_date end_date
       kwargs =
     (case data_source_method start_date end_date kwargs of
        Inr df \<Rightarrow> format_df_to_markdown df (default_max_rows dflt) (default_max_cols dflt)
      | Inl e \<Rightarrow> handle_error e)"

definition call_index_constituent_tool ::
  "formatter_defaults \<Rightarrow> string \<Rightarrow> (string option \<Rightarrow> exn + dataframe) \<Rightarrow> string
     \<Rightarrow> string option \<Rightarrow> string" where
  "call_index_constituent_tool dflt tool_name data_source_method index_name date =
     (case data_source_method date of
        Inr df \<Rightarrow> format_df_to_markdown df (default_max_rows dflt) (default_max_cols dflt)
      | Inl e \<Rightarrow> handle_error e)"

section \<open>backtest/baselines\<close>

text \<open>
  \<open>Signal\<close> and \<open>Portfolio\<close> are declared in \<open>base_strategy.py\<close>, which is not among the
  sources; the fields are the ones the two strategies read and set, and the numbers of
  a portfolio are floats. The text of \<open>reasoning\<close> and the \<open>metadata\<close> of a signal are
  not represented. Of the data frame the strategies read the \<open>close\<close> column only: it
  is the list of its values, the prices being numpy float64 numbers.
\<close>

record portfolio =
  cash :: pyfloat
  stock :: pyfloat

record signal =
  action :: string
  quantity :: int
  confidence :: pyfloat

text \<open>\<open>iloc[-1]\<close> raises IndexError on an empty series.\<close>

definition iloc_last :: "pyfloat list \<Rightarrow> exn + pyfloat" where
  "iloc_last prices =
     (if prices = [] then Inl (Exn IndexError ''single positional indexer is out-of-bounds'')
      else Inr (last prices))"

subsection \<open>buy\_hold.py\<close>

record buy_hold_strategy =
  allocation_ratio :: pyfloat
  initial_purchase_made :: bool

definition buy_hold_hold :: signal where
  "buy_hold_hold = \<lparr>action = ''hold'', quantity = 0, confidence = Fin 1\<rparr>"

text \<open>\<open>BuyHoldStrategy.generate_signal\<close>: the outcome of the call and the strategy object
  after it.\<close>

definition buy_hold_generate_signal ::
  "buy_hold_strategy \<Rightarrow> pyfloat list \<Rightarrow> portfolio \<Rightarrow> (exn + signal) \<times> buy_hold_strategy" where
  "buy_hold_generate_signal self closes pf =
     (if \<not> initial_purchase_made self \<and> float_gt (cash pf) (Fin 0) then
        (case then_do (iloc_last closes) (\<lambda>current_price.
                py_int (float_div (float_mul (cash pf) (allocation_ratio self)) current_price)) of
           Inl e \<Rightarrow> (Inl e, self)
         | Inr max_shares \<Rightarrow>
             if 0 < max_shares then
               (Inr \<lparr>action = ''buy'', quantity = max_shares, confidence = Fin 1\<rparr>,
                self\<lparr>initial_purchase_made := True\<rparr>)
             else (Inr buy_hold_hold, self))
      else (Inr buy_hold_hold, self))"

text \<open>A sequence of calls on one instance: each call sees the object as the call
  before left it.\<close>

fun buy_hold_calls ::
  "buy_hold_strategy \<Rightarrow> (pyfloat list \<times> portfolio) list \<Rightarrow> (exn + signal) list" where
  "buy_hold_calls self [] = []"
| "buy_hold_calls self (c # cs) =
     (case buy_hold_generate_signal self (fst c) (snd c) of
        (r, self') \<Rightarrow> r # buy_hold_calls self' cs)"

definition is_buy :: "exn + signal \<Rightarrow> bool" where
  "is_buy r = (case r of Inr s \<Rightarrow> action s = ''buy'' | Inl e \<Rightarrow> False)"

subsection \<open>moving\_average.py\<close>












section \<open>Predicates of the statements and sample inputs\<close>

definition in_unit_interval :: "pyfloat \<Rightarrow> bool" where
  "in_unit_interval f = (float_le (Fin (- 1)) f \<and> float_le f (Fin 1))"

text \<open>The label that the thresholds at 0.1 and -0.1 give a number, as the claims word
  it: bullish exactly above 0.1, bearish exactly below -0.1, neutral otherwise.\<close>

definition threshold_label :: "pyfloat \<Rightarrow> string \<Rightarrow> bool" where
  "threshold_label s l =
     ((l = ''bullish'' \<longleftrightarrow> float_gt s (Fin (1 / 10)))
      \<and> (l = ''bearish'' \<longleftrightarrow> float_lt s (Fin (- (1 / 10))))
      \<and> (l = ''neutral'' \<longleftrightarrow> \<not> float_gt s (Fin (1 / 10)) \<and> \<not> float_lt s (Fin (- (1 / 10)))))"



definition sample_loads :: "string \<Rightarrow> exn + pyval" where
  \<open>sample_loads s =
     (if s = ''{"perspective": "bullish", "confidence": 0.8}'' then
        Inr (PDict [(''perspective'', PStr ''bullish''), (''confidence'', PFloat (Fin (8 / 10)))])
      else if s = ''{"perspective": "bearish", "confidence": 0.6}'' then
        Inr (PDict [(''perspective'', PStr ''bearish''), (''confidence'', PFloat (Fin (6 / 10)))])
      else if s = ''{"perspective": "bullish", "confidence": -0.5}'' then
        Inr (PDict [(''perspective'', PStr ''bullish''),
                    (''confidence'', PFloat (Fin (- (1 / 2))))])
      else if s = ''{"perspective": "bearish", "confidence": 1.0}'' then
        Inr (PDict [(''perspective'', PStr ''bearish''), (''confidence'', PFloat (Fin 1))])
      else if s = ''{"score": NaN}'' then Inr (PDict [(''score'', PFloat NaN)])
      else if s = ''{"score": 2.5}'' then Inr (PDict [(''score'', PFloat (Fin (5 / 2)))])
      else Inl (Exn JSONDecodeError ''Expecting value''))\<close>

definition sample_ext :: ext where
  "sample_ext =
     \<lparr>json_loads = sample_loads,
      literal_eval = (\<lambda>c. Inl (Exn ValueError ''malformed node or string'')),
      str_to_float = (\<lambda>s. None),
      show_workflow_status = (\<lambda>args. None),
      new_regime_detector = None,
      prices_to_df = (\<lambda>v. Inr (PObj ''DataFrame'')),
      extract_regime_features = (\<lambda>v. Inr (PObj ''features'')),
      fit_regime_model = (\<lambda>v. Inr (PDict [])),
      predict_current_regime = (\<lambda>v. Inr (PDict [(''regime_name'', PStr ''unknown'')])),
      adaptive_signal_aggregation = (\<lambda>s r. Inl (Exn OtherError ''not called'')),
      get_chat_completion = Inr None,
      show_agent_reasoning = (\<lambda>d s. None)\<rparr>"

definition bull_message :: "string \<Rightarrow> message" where
  "bull_message body = \<lparr>msg_name = Some ''researcher_bull_agent'', msg_content = Some (CStr body)\<rparr>"

definition bear_message :: "string \<Rightarrow> message" where
  "bear_message body = \<lparr>msg_name = Some ''researcher_bear_agent'', msg_content = Some (CStr body)\<rparr>"

definition sample_researchers :: "(string \<times> message) list" where
  \<open>sample_researchers =
     [(''researcher_bull_agent'', bull_message ''{"perspective": "bullish", "confidence": 0.8}''),
      (''researcher_bear_agent'', bear_message ''{"perspective": "bearish", "confidence": 0.6}'')]\<close>


definition empty_state :: agent_state where
  "empty_state =
     \<lparr>st_messages = [], st_data = [(''prices'', PList [])],
      st_metadata = [(''show_reasoning'', PBool False)]\<rparr>"

definition researchers_state :: agent_state where
  \<open>researchers_state =
     \<lparr>st_messages =
        [Some (bull_message ''{"perspective": "bullish", "confidence": 0.8}''), None,
         Some (bear_message ''{"perspective": "bearish", "confidence": 0.6}'')],
      st_data = [(''prices'', PList [])],
      st_metadata = [(''show_reasoning'', PBool True)]\<rparr>\<close>

definition nan_ext :: ext where
  \<open>nan_ext = sample_ext\<lparr>get_chat_completion := Inr (Some ''My view: {"score": NaN}'')\<rparr>\<close>

definition high_ext :: ext where
  \<open>high_ext = sample_ext\<lparr>get_chat_completion := Inr (Some ''My view: {"score": 2.5}'')\<rparr>\<close>

definition wide_table :: dataframe where
  "wide_table =
     \<lparr>df_columns = replicate 12 ''col'', df_rows = replicate 25 (replicate 12 ''1.0'')\<rparr>"

definition sample_defaults :: formatter_defaults where
  "sample_defaults = \<lparr>default_max_rows = 250, default_max_cols = 15\<rparr>"


definition fresh_buy_hold :: buy_hold_strategy where
  "fresh_buy_hold = \<lparr>allocation_ratio = Fin 1, initial_purchase_made = False\<rparr>"

section \<open>Properties\<close>

lemma map_of_update_same: "map_of (AList.update k v al) k = Some v"
  by (simp add: update_conv')


subsection \<open>Sequencing and dictionaries\<close>

lemma then_do_Inr_iff: "then_do m f = Inr v \<longleftrightarrow> (\<exists>a. m = Inr a \<and> f a = Inr v)"
  by (cases m) (simp_all add: then_do_def)

lemma check_Inr_iff: "check m k = Inr v \<longleftrightarrow> m = None \<and> k = Inr v"
  by (cases m) (simp_all add: check_def)

lemma gt_lt_exclusive: "float_gt s (Fin a) \<Longrightarrow> float_lt s (Fin b) \<Longrightarrow> b \<le> a \<Longrightarrow> False"
  by (cases s) (auto simp: float_gt_def)

lemma threshold_label_chain:
  "threshold_label s
     (if float_gt s (Fin (1 / 10)) then ''bullish''
      else if float_lt s (Fin (- (1 / 10))) then ''bearish'' else ''neutral'')"
  using gt_lt_exclusive[of s "1 / 10" "- (1 / 10)"]
  by (auto simp: threshold_label_def)

subsection \<open>The thresholds of the conversion\<close>

text \<open>
  C1. For an analysis whose \<open>signal\<close> is a number \<open>s\<close>, the conversion returns the
  analysis with the signal replaced by the label of \<open>s\<close>: bullish exactly when
  \<open>s > 0.1\<close>, bearish exactly when \<open>s < -0.1\<close>, neutral otherwise. The traditional debate
  logic labels its averaged researcher signal by the same thresholds. The hypothesis
  \<open>format_f v = None\<close> holds of every float and of every int that converts to a float;
  for any other int the log line of line 445 raises. Lemma
  \<open>convert_returns_in_agent\<close> shows that the call in \<open>debate_room_agent\<close> always
  satisfies it.
\<close>

theorem convert_threshold:
  assumes "map_of analysis ''signal'' = Some v" and "num_value v = Some s"
    and "format_f v = None"
  shows "(\<exists>l. convert_numeric_signal_to_string analysis
                = Inr (AList.update ''signal'' (PStr l) analysis)
              \<and> threshold_label s l)
       \<and> (2 \<le> length researcher_messages \<longrightarrow>
            (\<exists>l. map_of (traditional_debate_logic x researcher_messages) ''signal''
                   = Some (PStr l)
                 \<and> threshold_label (avg_signal x researcher_messages) l))"
proof (intro conjI impI)
  show "\<exists>l. convert_numeric_signal_to_string analysis
                = Inr (AList.update ''signal'' (PStr l) analysis)
            \<and> threshold_label s l"
    using assms threshold_label_chain[of s]
    by (auto simp: convert_numeric_signal_to_string_def)
next
  assume "2 \<le> length researcher_messages"
  then show "\<exists>l. map_of (traditional_debate_logic x researcher_messages) ''signal''
                   = Some (PStr l)
                 \<and> threshold_label (avg_signal x researcher_messages) l"
    using threshold_label_chain[of "avg_signal x researcher_messages"]
    by (auto simp: traditional_debate_logic_def Let_def)
qed

lemma sample_avg_signal: "avg_signal sample_ext sample_researchers = Fin (1 / 7)"
  by (simp add: avg_signal_def sample_researchers_def bull_message_def bear_message_def
      researcher_signal_def sample_ext_def sample_loads_def loads_content_def py_get_def
      dict_get_def parse_confidence_def perspective_values_get_def float_gt_def)

theorem convert_threshold_witness:
  "convert_numeric_signal_to_string
     [(''signal'', PFloat (Fin (3 / 10))), (''confidence'', PFloat (Fin (6 / 10)))]
     = Inr [(''signal'', PStr ''bullish''), (''confidence'', PFloat (Fin (6 / 10)))]
   \<and> map_of (traditional_debate_logic sample_ext sample_researchers) ''signal''
     = Some (PStr ''bullish'')"
proof -
  let ?a = "[(''signal'', PFloat (Fin (3 / 10))), (''confidence'', PFloat (Fin (6 / 10)))]"
  have h1: "map_of ?a ''signal'' = Some (PFloat (Fin (3 / 10)))" by simp
  have h2: "num_value (PFloat (Fin (3 / 10))) = Some (Fin (3 / 10))" by simp
  have h3: "format_f (PFloat (Fin (3 / 10))) = None" by simp
  have h4: "2 \<le> length sample_researchers" by (simp add: sample_researchers_def)
  from convert_threshold[OF h1 h2 h3, of sample_researchers sample_ext] h4
  obtain l l' where
    c: "convert_numeric_signal_to_string ?a = Inr (AList.update ''signal'' (PStr l) ?a)"
    and t: "threshold_label (Fin (3 / 10)) l"
    and c': "map_of (traditional_debate_logic sample_ext sample_researchers) ''signal''
               = Some (PStr l')"
    and t': "threshold_label (avg_signal sample_ext sample_researchers) l'"
    by blast
  from t have "l = ''bullish''" by (simp add: threshold_label_def float_gt_def)
  moreover from t' have "l' = ''bullish''"
    by (simp add: sample_avg_signal threshold_label_def float_gt_def)
  ultimately show ?thesis using c c' by simp
qed

text \<open>The conversion raises in one case only: an int signal beyond the float range.\<close>

lemma convert_raises_iff:
  "(\<exists>e. convert_numeric_signal_to_string analysis = Inl e)
   \<longleftrightarrow> (\<exists>i. map_of analysis ''signal'' = Some (PInt i) \<and> \<not> int_fits_float i)"
proof (cases "map_of analysis ''signal''")
  case None
  then show ?thesis by (simp add: convert_numeric_signal_to_string_def)
next
  case (Some v)
  then show ?thesis
    by (cases v) (auto simp: convert_numeric_signal_to_string_def)
qed

text \<open>At its one call site the conversion returns: the signal that reaches it is a
  string, a float, or a number that the \<open>:.3f\<close> field of line 103 has formatted.\<close>

lemma aggregate_signal_formats:
  assumes "aggregate x agent_signals current_regime regime_model_results researcher_messages
             = Inr a"
  shows "\<exists>v. map_of a ''signal'' = Some v \<and> (num_value v = None \<or> format_f v = None)"
proof (cases "agent_signals \<noteq> []
    \<and> py_get current_regime ''regime_name'' PNone \<noteq> Inr (PStr ''unknown'')")
  case True
  with assms have "adaptive_analysis x agent_signals current_regime regime_model_results = Inr a"
    by (auto simp: aggregate_def then_do_Inr_iff split: if_splits)
  then show ?thesis
    by (auto simp: adaptive_analysis_def then_do_Inr_iff check_Inr_iff)
next
  case False
  with assms have "a = traditional_debate_logic x researcher_messages"
    by (auto simp: aggregate_def then_do_Inr_iff split: if_splits)
  then show ?thesis by (simp add: traditional_debate_logic_def Let_def)
qed

lemma fuse_signal_formats:
  assumes "fuse_llm x a llm current_regime = Inr f"
    and "\<exists>v. map_of a ''signal'' = Some v \<and> (num_value v = None \<or> format_f v = None)"
  shows "\<exists>v. map_of f ''signal'' = Some v \<and> (num_value v = None \<or> format_f v = None)"
  using assms
  by (auto simp: fuse_llm_def then_do_Inr_iff Let_def update_conv' split: if_splits)

lemma convert_returns_in_agent:
  assumes "aggregate x agent_signals current_regime regime_model_results researcher_messages
             = Inr a"
    and "f = a \<or> fuse_llm x a llm current_regime = Inr f"
  shows "\<exists>r. convert_numeric_signal_to_string f = Inr r"
proof -
  from assms aggregate_signal_formats fuse_signal_formats
  obtain v where "map_of f ''signal'' = Some v" "num_value v = None \<or> format_f v = None"
    by blast
  then show ?thesis
    by (auto simp: convert_numeric_signal_to_string_def split: option.splits)
qed


subsection \<open>The weighted average of the researchers\<close>







subsection \<open>The round trip of a signal string\<close>

text \<open>
  C4. For each of the three signal strings, the numeric value that the fusion step
  maps it to (1.0, 0.0, -1.0) is converted back to the same string by the threshold
  conversion.
\<close>

theorem signal_round_trip:
  assumes "s \<in> {''bullish'', ''neutral'', ''bearish''}"
  shows "numeric_of_signal x (PStr s) = Inr (signal_mapping_get s)
    \<and> convert_numeric_signal_to_string
         (AList.update ''signal'' (PFloat (signal_mapping_get s)) analysis)
       = Inr (AList.update ''signal'' (PStr s) analysis)"
  using assms
  by (auto simp: numeric_of_signal_def signal_mapping_get_def py_lower_def
      convert_numeric_signal_to_string_def map_of_update_same float_gt_def)

theorem signal_round_trip_witness:
  "numeric_of_signal sample_ext (PStr ''bearish'') = Inr (Fin (- 1))
   \<and> convert_numeric_signal_to_string [(''signal'', PFloat (Fin (- 1)))]
       = Inr [(''signal'', PStr ''bearish'')]"
proof -
  have h: "''bearish'' \<in> {''bullish'', ''neutral'', ''bearish''}" by simp
  from signal_round_trip[OF h, of sample_ext "[(''signal'', PStr ''bearish'')]"]
  show ?thesis by (simp add: signal_mapping_get_def)
qed


subsection \<open>The handler of debate\_room\_agent\<close>

lemma aggregate_no_signals:
  "aggregate x [] current_regime regime_model_results researcher_messages
     = Inr (traditional_debate_logic x researcher_messages)"
  by (simp add: aggregate_def then_do_def)

lemma analyse_missing_researchers:
  assumes "collect_signals x (st_messages state) ([], []) = Inr ([], rm)"
    and "map_of rm ''researcher_bull_agent'' = None \<or> map_of rm ''researcher_bear_agent'' = None"
  shows "\<exists>e. analyse x state = Inl e"
proof (cases "detect_regime x state")
  case (Inl e)
  then show ?thesis by (simp add: analyse_def then_do_def)
next
  case (Inr r)
  obtain sr cr rmr where r: "r = (sr, cr, rmr)" by (cases r)
  show ?thesis using Inr r assms
    by (auto simp: analyse_def then_do_def aggregate_no_signals)
qed

lemma body_Inl_of_analyse:
  "analyse x state = Inl e \<Longrightarrow> fst (debate_room_body x state) = Inl e"
  by (simp add: debate_room_body_def)

text \<open>
  C3. Whenever the body of the \<open>try\<close> raises an exception \<open>e\<close> (of a subclass of
  \<open>Exception\<close>, which is what the handler catches and what \<open>exn\<close> holds), the agent
  returns the one message \<open>debate_room_agent\<close> whose content is the default
  analysis: signal neutral, confidence 0.3. The body raises, in particular, when no
  agent signal was collected and the bull or the bear researcher message is missing.
  The agent itself is a total function: it returns a result on every state.
\<close>

theorem debate_room_fallback:
  "(fst (debate_room_body x state) = Inl e \<longrightarrow>
      out_messages (debate_room_agent x state)
        = [\<lparr>hm_name = ''debate_room_agent'', hm_json = default_analysis e\<rparr>]
      \<and> map_of (default_analysis e) ''signal'' = Some (PStr ''neutral'')
      \<and> map_of (default_analysis e) ''confidence'' = Some (PFloat (Fin (3 / 10))))
   \<and> (collect_signals x (st_messages state) ([], []) = Inr ([], researcher_messages)
      \<and> (map_of researcher_messages ''researcher_bull_agent'' = None
         \<or> map_of researcher_messages ''researcher_bear_agent'' = None) \<longrightarrow>
      (\<exists>e'. fst (debate_room_body x state) = Inl e'))"
proof (intro conjI impI)
  assume "fst (debate_room_body x state) = Inl e"
  then show "out_messages (debate_room_agent x state)
        = [\<lparr>hm_name = ''debate_room_agent'', hm_json = default_analysis e\<rparr>]"
    by (cases "debate_room_body x state") (simp add: debate_room_agent_def)
next
  show "map_of (default_analysis e) ''signal'' = Some (PStr ''neutral'')"
    by (simp add: default_analysis_def)
next
  show "map_of (default_analysis e) ''confidence'' = Some (PFloat (Fin (3 / 10)))"
    by (simp add: default_analysis_def)
next
  assume "collect_signals x (st_messages state) ([], []) = Inr ([], researcher_messages)
      \<and> (map_of researcher_messages ''researcher_bull_agent'' = None
         \<or> map_of researcher_messages ''researcher_bear_agent'' = None)"
  then obtain e' where "analyse x state = Inl e'"
    using analyse_missing_researchers by blast
  then show "\<exists>e'. fst (debate_room_body x state) = Inl e'"
    using body_Inl_of_analyse by blast
qed

lemma int_fits_float_0: "int_fits_float 0"
  by (simp add: int_fits_float_def float_max_int_def)

lemma sample_detect_regime:
  "detect_regime sample_ext empty_state
     = Inr (PBool False, PDict [(''regime_name'', PStr ''unknown'')], PDict [])"
  by (simp add: detect_regime_def sample_ext_def empty_state_def check_def then_do_def
      py_subscript_def py_get_def dict_get_def int_fits_float_0)

lemma empty_state_analyse:
  "analyse sample_ext empty_state
     = Inl (Exn ValueError
             ''Missing required researcher_bull_agent or researcher_bear_agent messages'')"
proof -
  have c: "collect_signals sample_ext (st_messages empty_state) ([], []) = Inr ([], [])"
    by (simp add: empty_state_def)
  show ?thesis
    by (simp add: analyse_def sample_detect_regime c then_do_def aggregate_no_signals)
qed

theorem debate_room_fallback_witness:
  "fst (debate_room_body sample_ext empty_state)
     = Inl (Exn ValueError
             ''Missing required researcher_bull_agent or researcher_bear_agent messages'')
   \<and> collect_signals sample_ext (st_messages empty_state) ([], []) = Inr ([], [])
   \<and> out_messages (debate_room_agent sample_ext empty_state)
       = [\<lparr>hm_name = ''debate_room_agent'',
           hm_json =
             [(''signal'', PStr ''neutral''), (''confidence'', PFloat (Fin (3 / 10))),
              (''error'', PStr
                 ''Missing required researcher_bull_agent or researcher_bear_agent messages''),
              (''aggregation_method'', PStr ''error_fallback'')]\<rparr>]"
proof -
  let ?e = "Exn ValueError
             ''Missing required researcher_bull_agent or researcher_bear_agent messages''"
  have b: "fst (debate_room_body sample_ext empty_state) = Inl ?e"
    by (simp add: body_Inl_of_analyse empty_state_analyse)
  have c: "collect_signals sample_ext (st_messages empty_state) ([], []) = Inr ([], [])"
    by (simp add: empty_state_def)
  from debate_room_fallback[of sample_ext empty_state ?e "[]"] b c
  show ?thesis by (simp add: default_analysis_def)
qed

subsection \<open>The frame of debate\_room\_agent\<close>

lemma detect_regime_show_reasoning:
  assumes "detect_regime x state = Inr (sr, cr, rmr)"
  shows "map_of (st_metadata state) ''show_reasoning'' = Some sr"
  using assms
  by (auto simp: detect_regime_def then_do_Inr_iff check_Inr_iff py_subscript_def
      split: option.splits)

lemma analyse_show_reasoning:
  assumes "analyse x state = Inr (sr, ea)"
  shows "map_of (st_metadata state) ''show_reasoning'' = Some sr"
  using assms
  by (auto simp: analyse_def then_do_Inr_iff split: if_splits
      dest: detect_regime_show_reasoning)

text \<open>
  C10. On every state, on the normal path and in the handler alike, the result carries
  the \<open>data\<close> of the state unchanged and exactly one message; its metadata is the
  metadata of the state, or, when \<open>show_reasoning\<close> is set, that metadata with
  \<open>agent_reasoning\<close> written. (The imported functions are taken not to change the
  objects they are passed.)
\<close>

theorem debate_room_frame:
  "out_data (debate_room_agent x state) = st_data state
   \<and> length (out_messages (debate_room_agent x state)) = 1
   \<and> (out_metadata (debate_room_agent x state) = st_metadata state
      \<or> (\<exists>show_reasoning enhanced_analysis.
            map_of (st_metadata state) ''show_reasoning'' = Some show_reasoning
          \<and> py_truthy show_reasoning
          \<and> out_metadata (debate_room_agent x state)
              = AList.update ''agent_reasoning'' (PDict enhanced_analysis) (st_metadata state)))"
proof (cases "analyse x state")
  case (Inl e)
  then show ?thesis by (simp add: debate_room_agent_def debate_room_body_def)
next
  case (Inr r)
  obtain sr ea where r: "r = (sr, ea)" by (cases r)
  from Inr r have m: "map_of (st_metadata state) ''show_reasoning'' = Some sr"
    by (simp add: analyse_show_reasoning)
  show ?thesis
    using Inr r m
    by (auto simp: debate_room_agent_def debate_room_body_def Let_def split: option.splits)
qed


theorem debate_room_frame_witness:
  "out_data (debate_room_agent sample_ext researchers_state) = [(''prices'', PList [])]
   \<and> length (out_messages (debate_room_agent sample_ext researchers_state)) = 1
   \<and> out_metadata (debate_room_agent sample_ext researchers_state)
       = [(''show_reasoning'', PBool True),
          (''agent_reasoning'',
             PDict (hm_json (hd (out_messages (debate_room_agent sample_ext researchers_state)))))]
   \<and> map_of (hm_json (hd (out_messages (debate_room_agent sample_ext researchers_state))))
         ''signal'' = Some (PStr ''bullish'')"
proof -
  have d: "st_data researchers_state = [(''prices'', PList [])]"
    by (simp add: researchers_state_def)
  have m: "out_metadata (debate_room_agent sample_ext researchers_state)
       = [(''show_reasoning'', PBool True),
          (''agent_reasoning'',
             PDict (hm_json (hd (out_messages (debate_room_agent sample_ext researchers_state)))))]"
    by code_simp
  have s: "map_of (hm_json (hd (out_messages (debate_room_agent sample_ext researchers_state))))
         ''signal'' = Some (PStr ''bullish'')"
    by code_simp
  from debate_room_frame[of sample_ext researchers_state] d m s show ?thesis by simp
qed

subsection \<open>The score of the LLM\<close>

lemma py_clamp_range:
  "f \<noteq> NaN \<Longrightarrow> in_unit_interval (py_max (py_min f (Fin 1)) (Fin (- 1)))"
  by (cases f) (auto simp: py_max_def py_min_def float_gt_def in_unit_interval_def)

lemma py_clamp_nan: "py_max (py_min NaN (Fin 1)) (Fin (- 1)) = NaN"
  by (simp add: py_max_def py_min_def float_gt_def)

text \<open>What \<open>_get_llm_enhanced_analysis\<close> returns for \<open>llm_score\<close>: the int 0 of the
  default, a float in \<open>[-1, 1]\<close>, or \<open>NaN\<close>.\<close>

lemma llm_score_cases:
  "\<exists>v. map_of (parse_llm_response x) ''llm_score'' = Some v
       \<and> (v = PInt 0 \<or> v = PFloat NaN \<or> (\<exists>f. v = PFloat f \<and> in_unit_interval f))"
proof -
  have c: "py_max (py_min f (Fin 1)) (Fin (- 1)) = NaN
           \<or> in_unit_interval (py_max (py_min f (Fin 1)) (Fin (- 1)))" for f
    using py_clamp_range[of f] py_clamp_nan by (cases "f = NaN") auto
  show ?thesis
    using c by (auto simp: parse_llm_response_def llm_failed_def Let_def
        split: sum.splits option.splits)
qed

text \<open>When the request raises or returns nothing, when the response has no braces in
  order, or when the text between them does not parse into an object whose score
  converts to a float, the \<open>llm_score\<close> is the int 0.\<close>

lemma llm_score_default:
  assumes "\<not> (\<exists>r a sc f. get_chat_completion x = Inr (Some r) \<and> r \<noteq> []
             \<and> 0 \<le> find_char (CHR ''{'') r \<and> find_char (CHR ''{'') r < rfind_char (CHR ''}'') r + 1
             \<and> json_loads x (slice r (find_char (CHR ''{'') r) (rfind_char (CHR ''}'') r + 1))
                   = Inr a
             \<and> py_get a ''score'' (PInt 0) = Inr sc \<and> py_float x sc = Inr f)"
  shows "parse_llm_response x = llm_failed"
  using assms
  by (auto simp: parse_llm_response_def Let_def split: sum.splits option.splits)

text \<open>A score that is extracted and is not \<open>NaN\<close> is clamped into \<open>[-1, 1]\<close>.\<close>

lemma llm_score_in_range:
  assumes "get_chat_completion x = Inr (Some r)" and "r \<noteq> []"
    and "0 \<le> find_char (CHR ''{'') r" and "find_char (CHR ''{'') r < rfind_char (CHR ''}'') r + 1"
    and "json_loads x (slice r (find_char (CHR ''{'') r) (rfind_char (CHR ''}'') r + 1)) = Inr a"
    and "py_get a ''score'' (PInt 0) = Inr sc" and "py_float x sc = Inr f" and "f \<noteq> NaN"
  shows "\<exists>g. map_of (parse_llm_response x) ''llm_score'' = Some (PFloat g) \<and> in_unit_interval g"
  using assms py_clamp_range[of f]
  by (simp add: parse_llm_response_def Let_def)

lemma llm_score_clamped_sample:
  "map_of (parse_llm_response high_ext) ''llm_score'' = Some (PFloat (Fin 1))"
  by code_simp

text \<open>
  C5 fails on the code. The response \<open>My view: {"score": NaN}\<close> has a JSON object
  between its first \<open>{\<close> and its last \<open>}\<close>; \<open>json.loads\<close> reads the score as the float
  \<open>NaN\<close>; \<open>max(min(NaN, 1.0), -1.0)\<close> is \<open>NaN\<close>, since every comparison with \<open>NaN\<close> is
  false; and the \<open>llm_score\<close> returned is \<open>NaN\<close>, which is not in \<open>[-1, 1]\<close>.
\<close>

theorem llm_score_nan:
  \<open>slice ''My view: {"score": NaN}'' (find_char (CHR ''{'') ''My view: {"score": NaN}'')
       (rfind_char (CHR ''}'') ''My view: {"score": NaN}'' + 1) = ''{"score": NaN}''
   \<and> map_of (parse_llm_response nan_ext) ''llm_score'' = Some (PFloat NaN)
   \<and> \<not> in_unit_interval NaN\<close>
  by code_simp


subsection \<open>The tools of mcp\_tools/base.py\<close>

lemma cap_df_bounds:
  "length (df_rows (cap_df max_rows max_cols df)) \<le> max_rows
   \<and> length (df_columns (cap_df max_rows max_cols df)) \<le> max_cols
   \<and> (\<forall>row \<in> set (df_rows (cap_df max_rows max_cols df)). length row \<le> max_cols)
   \<and> length (md_lines (cap_df max_rows max_cols df)) \<le> max_rows + 2"
  by (auto simp: cap_df_def md_lines_def)

text \<open>
  C6. When the data source method returns a table, each of the three tools returns
  \<open>format_df_to_markdown\<close> of it: the financial tool with the counts 20 and 10, the
  macro and the index tool with the formatter's default counts. The table so written
  has at most \<open>max_rows\<close> rows of at most \<open>max_cols\<close> cells under at most \<open>max_cols\<close>
  column names.
\<close>

theorem tools_return_capped_table:
  "(isdigit year \<and> length year = 4 \<and> 1 \<le> quarter \<and> quarter \<le> 4
      \<and> financial_method code year quarter = Inr df \<longrightarrow>
      fst (call_financial_data_tool tool_name financial_method data_type_name code year quarter)
        = format_df_to_markdown df 20 10)
   \<and> (macro_method start_date end_date kwargs = Inr df \<longrightarrow>
      call_macro_data_tool dflt tool_name macro_method data_type_name start_date end_date kwargs
        = format_df_to_markdown df (default_max_rows dflt) (default_max_cols dflt))
   \<and> (index_method date = Inr df \<longrightarrow>
      call_index_constituent_tool dflt tool_name index_method index_name date
        = format_df_to_markdown df (default_max_rows dflt) (default_max_cols dflt))
   \<and> format_df_to_markdown df max_rows max_cols
        = join [CHR 0x0A] (md_lines (cap_df max_rows max_cols df))
   \<and> length (df_rows (cap_df max_rows max_cols df)) \<le> max_rows
   \<and> length (df_columns (cap_df max_rows max_cols df)) \<le> max_cols
   \<and> (\<forall>row \<in> set (df_rows (cap_df max_rows max_cols df)). length row \<le> max_cols)
   \<and> length (md_lines (cap_df max_rows max_cols df)) \<le> max_rows + 2"
  using cap_df_bounds[of max_rows max_cols df]
  by (simp add: call_financial_data_tool_def call_macro_data_tool_def
      call_index_constituent_tool_def format_df_to_markdown_def)

lemma wide_table_capped:
  "length (df_rows (cap_df 20 10 wide_table)) = 20
   \<and> length (df_columns (cap_df 20 10 wide_table)) = 10
   \<and> length (md_lines (cap_df 20 10 wide_table)) = 22"
  by (simp add: cap_df_def wide_table_def md_lines_def)

lemma year_2023_valid: "isdigit ''2023'' \<and> length ''2023'' = 4"
  by (simp add: isdigit_def is_digit_char_def)

theorem tools_return_capped_table_witness:
  "fst (call_financial_data_tool ''get_profit_data'' (\<lambda>c y q. Inr wide_table) ''Profitability''
          ''sh.600000'' ''2023'' 2)
     = format_df_to_markdown wide_table 20 10
   \<and> call_macro_data_tool sample_defaults ''get_deposit_rate_data''
        (\<lambda>s e k. Inr wide_table) ''Deposit Rate'' None None []
     = format_df_to_markdown wide_table 250 15
   \<and> call_index_constituent_tool sample_defaults ''get_hs300_stocks''
        (\<lambda>d. Inr wide_table) ''CSI 300'' None
     = format_df_to_markdown wide_table 250 15
   \<and> length (df_rows (cap_df 20 10 wide_table)) = 20
   \<and> length (df_columns (cap_df 20 10 wide_table)) = 10
   \<and> length (md_lines (cap_df 20 10 wide_table)) = 22"
proof -
  have q: "(1::int) \<le> 2 \<and> (2::int) \<le> 4" by simp
  from tools_return_capped_table[of "''2023''" 2 "\<lambda>c y q. Inr wide_table" "''sh.600000''"
      wide_table "''get_profit_data''" "''Profitability''"]
    year_2023_valid q
  have f: "fst (call_financial_data_tool ''get_profit_data'' (\<lambda>c y q. Inr wide_table)
              ''Profitability'' ''sh.600000'' ''2023'' 2)
            = format_df_to_markdown wide_table 20 10"
    by simp
  have m: "call_macro_data_tool sample_defaults ''get_deposit_rate_data''
        (\<lambda>s e k. Inr wide_table) ''Deposit Rate'' None None []
     = format_df_to_markdown wide_table 250 15"
    by (simp add: call_macro_data_tool_def sample_defaults_def)
  have i: "call_index_constituent_tool sample_defaults ''get_hs300_stocks''
        (\<lambda>d. Inr wide_table) ''CSI 300'' None
     = format_df_to_markdown wide_table 250 15"
    by (simp add: call_index_constituent_tool_def sample_defaults_def)
  from f m i wide_table_capped show ?thesis by simp
qed





subsection \<open>BuyHoldStrategy\<close>

lemma not_buy_hold: "\<not> is_buy (Inr buy_hold_hold)"
  by (simp add: is_buy_def buy_hold_hold_def)

lemma buy_hold_after_purchase:
  "initial_purchase_made self \<Longrightarrow>
     buy_hold_generate_signal self closes pf = (Inr buy_hold_hold, self)"
  by (simp add: buy_hold_generate_signal_def)

lemma buy_hold_calls_after_purchase:
  "initial_purchase_made self \<Longrightarrow>
     buy_hold_calls self cs = replicate (length cs) (Inr buy_hold_hold)"
  by (induction cs) (simp_all add: buy_hold_after_purchase)

lemma buy_sets_flag:
  assumes "buy_hold_generate_signal self closes pf = (r, self')" and "is_buy r"
  shows "initial_purchase_made self'"
  using assms not_buy_hold
  by (auto simp: buy_hold_generate_signal_def is_buy_def split: if_splits sum.splits)

text \<open>
  C8. In the results of any sequence of \<open>generate_signal\<close> calls on one
  \<open>BuyHoldStrategy\<close> object, whatever its state before the first call, at most one
  result is a buy; after a call that returned a buy, every later call returns hold
  with quantity 0 and confidence 1.0, whatever prices and portfolio it is given.
\<close>

theorem buy_hold_single_purchase:
  "length (filter is_buy (buy_hold_calls self cs)) \<le> 1
   \<and> (\<forall>i j. i < j \<and> j < length cs \<and> is_buy (buy_hold_calls self cs ! i) \<longrightarrow>
         buy_hold_calls self cs ! j
           = Inr \<lparr>action = ''hold'', quantity = 0, confidence = Fin 1\<rparr>)"
proof (induction cs arbitrary: self)
  case Nil
  then show ?case by simp
next
  case (Cons c cs)
  obtain r self' where g: "buy_hold_generate_signal self (fst c) (snd c) = (r, self')"
    by (cases "buy_hold_generate_signal self (fst c) (snd c)")
  then have calls: "buy_hold_calls self (c # cs) = r # buy_hold_calls self' cs" by simp
  show ?case
  proof (cases "is_buy r")
    case True
    with g have "initial_purchase_made self'" by (rule buy_sets_flag)
    then have rest: "buy_hold_calls self' cs = replicate (length cs) (Inr buy_hold_hold)"
      by (rule buy_hold_calls_after_purchase)
    have none: "filter is_buy (replicate (length cs) (Inr buy_hold_hold)) = []"
      using not_buy_hold by (induction cs) simp_all
    have later: "(r # replicate (length cs) (Inr buy_hold_hold)) ! j
                   = Inr \<lparr>action = ''hold'', quantity = 0, confidence = Fin 1\<rparr>"
      if "i < j" "j < length (c # cs)" for i j
      using that by (cases j) (simp_all add: buy_hold_hold_def)
    have "length (filter is_buy (r # replicate (length cs) (Inr buy_hold_hold))) \<le> 1"
      using none by simp
    with later show ?thesis
      unfolding calls rest by blast
  next
    case False
    have shift: "(r # buy_hold_calls self' cs) ! j
                   = Inr \<lparr>action = ''hold'', quantity = 0, confidence = Fin 1\<rparr>"
      if "i < j" "j < length (c # cs)" "is_buy ((r # buy_hold_calls self' cs) ! i)" for i j
    proof -
      from that False obtain i' where i': "i = Suc i'" by (cases i) auto
      from that obtain j' where j': "j = Suc j'" by (cases j) auto
      from that i' j' Cons.IH[of self'] show ?thesis by auto
    qed
    have "length (filter is_buy (r # buy_hold_calls self' cs)) \<le> 1"
      using False Cons.IH[of self'] by simp
    with shift show ?thesis
      unfolding calls by blast
  qed
qed

theorem buy_hold_single_purchase_witness:
  "buy_hold_calls fresh_buy_hold
     [([Fin 9, Fin 10], \<lparr>cash = Fin 1000, stock = Fin 0\<rparr>),
      ([Fin 9, Fin 10, Fin 5], \<lparr>cash = Fin 1000, stock = Fin 0\<rparr>),
      ([], \<lparr>cash = PInf, stock = NaN\<rparr>)]
     = [Inr \<lparr>action = ''buy'', quantity = 100, confidence = Fin 1\<rparr>,
        Inr \<lparr>action = ''hold'', quantity = 0, confidence = Fin 1\<rparr>,
        Inr \<lparr>action = ''hold'', quantity = 0, confidence = Fin 1\<rparr>]
   \<and> length (filter is_buy (buy_hold_calls fresh_buy_hold
        [([Fin 9, Fin 10], \<lparr>cash = Fin 1000, stock = Fin 0\<rparr>),
         ([Fin 9, Fin 10, Fin 5], \<lparr>cash = Fin 1000, stock = Fin 0\<rparr>),
         ([], \<lparr>cash = PInf, stock = NaN\<rparr>)])) = 1"
proof -
  let ?cs = "[([Fin 9, Fin 10], \<lparr>cash = Fin 1000, stock = Fin 0\<rparr>),
      ([Fin 9, Fin 10, Fin 5], \<lparr>cash = Fin 1000, stock = Fin 0\<rparr>),
      ([], \<lparr>cash = PInf, stock = NaN\<rparr>)]"
  have e: "buy_hold_calls fresh_buy_hold ?cs
     = [Inr \<lparr>action = ''buy'', quantity = 100, confidence = Fin 1\<rparr>,
        Inr \<lparr>action = ''hold'', quantity = 0, confidence = Fin 1\<rparr>,
        Inr \<lparr>action = ''hold'', quantity = 0, confidence = Fin 1\<rparr>]"
    by code_simp
  from buy_hold_single_purchase[of fresh_buy_hold ?cs]
  have "length (filter is_buy (buy_hold_calls fresh_buy_hold ?cs)) \<le> 1"
    by (rule conjunct1)
  with e show ?thesis by (simp add: is_buy_def)
qed


subsection \<open>MovingAverageStrategy\<close>







end
